theory Spec2Isabelle
  imports Main
begin

section \<open>JavaScript values and errors\<close>

text \<open>
  The chat route handler (\<^verbatim>\<open>POST\<close>) reads an untyped JSON body, so the body is modelled as a
  JavaScript value. A number is kept as the text JavaScript renders it as; \<open>JUndefined\<close> is
  what reading an absent property gives. An object is the list of its own properties.
  Strings are the UTF-8 bytes of the text.
\<close>

datatype js_value =
    JUndefined
  | JNull
  | JBool bool
  | JNum string
  | JStr string
  | JArr "js_value list"
  | JObj "(string \<times> js_value) list"

text \<open>
  What a \<^verbatim>\<open>catch\<close> of the handler can receive: a \<open>TypeError\<close> raised by the engine, an
  \<^verbatim>\<open>Error\<close> object with its name and message, or a thrown value that is no \<^verbatim>\<open>Error\<close>.
\<close>

datatype js_error = TypeError | ErrorObject string string | NonError

text \<open>\<^verbatim>\<open>v.k\<close> for the property names the handler reads (messages, role, content): reading a
  property of \<^verbatim>\<open>null\<close> or \<^verbatim>\<open>undefined\<close> throws; primitives and arrays have no such property.\<close>

fun get_prop :: "js_value \<Rightarrow> string \<Rightarrow> js_error + js_value" where
  "get_prop JUndefined k = Inl TypeError"
| "get_prop JNull k = Inl TypeError"
| "get_prop (JObj kvs) k = Inr (case map_of kvs k of None \<Rightarrow> JUndefined | Some v \<Rightarrow> v)"
| "get_prop v k = Inr JUndefined"

fun truthy :: "js_value \<Rightarrow> bool" where
  "truthy JUndefined = False"
| "truthy JNull = False"
| "truthy (JBool b) = b"
| "truthy (JNum t) = (t \<noteq> ''0'')"
| "truthy (JStr s) = (s \<noteq> [])"
| "truthy (JArr xs) = True"
| "truthy (JObj kvs) = True"

fun isArray :: "js_value \<Rightarrow> bool" where
  "isArray (JArr xs) = True"
| "isArray v = False"

fun elements :: "js_value \<Rightarrow> js_value list" where
  "elements (JArr xs) = xs"
| "elements v = []"

text \<open>\<^verbatim>\<open>xs.join(sep)\<close> on strings.\<close>

fun join :: "string \<Rightarrow> string list \<Rightarrow> string" where
  "join sep [] = []"
| "join sep [x] = x"
| "join sep (x # y # ys) = x @ sep @ join sep (y # ys)"

text \<open>
  The string a template literal makes of a value. An array joins its elements with a comma,
  \<^verbatim>\<open>null\<close> and \<^verbatim>\<open>undefined\<close> elements as the empty string; a parsed object gives
  \<^verbatim>\<open>[object Object]\<close>, unless it has an own property \<^verbatim>\<open>toString\<close> (which, coming from JSON,
  is not callable), when the conversion throws.
\<close>

fun to_string :: "js_value \<Rightarrow> js_error + string"
  and element_strings :: "js_value list \<Rightarrow> js_error + string list" where
  "to_string JUndefined = Inr ''undefined''"
| "to_string JNull = Inr ''null''"
| "to_string (JBool b) = Inr (if b then ''true'' else ''false'')"
| "to_string (JNum t) = Inr t"
| "to_string (JStr s) = Inr s"
| "to_string (JArr xs) =
     (case element_strings xs of Inl e \<Rightarrow> Inl e | Inr ss \<Rightarrow> Inr (join '','' ss))"
| "to_string (JObj kvs) =
     (if map_of kvs ''toString'' = None then Inr ''[object Object]'' else Inl TypeError)"
| "element_strings [] = Inr []"
| "element_strings (x # xs) =
     (case (if x = JNull \<or> x = JUndefined then Inr [] else to_string x) of
        Inl e \<Rightarrow> Inl e
      | Inr s \<Rightarrow> (case element_strings xs of Inl e \<Rightarrow> Inl e | Inr ss \<Rightarrow> Inr (s # ss)))"

section \<open>Telemetry\<close>

text \<open>
  The calls to the telemetry backend, in the order made. A data value is a string, a
  count, or a token for what the model does not compute: a clock reading or a duration
  (\<open>DClock\<close>), the engine's text of a \<open>TypeError\<close> (\<open>DEngineText\<close>), the \<^verbatim>\<open>length\<close> of a value.
\<close>

datatype level = LInfo | LWarning | LError

text \<open>A number of the agent SDK, kept as the text \<^verbatim>\<open>JSON.stringify\<close> gives for it.\<close>

datatype js_number = JsNumber string

datatype dval =
    DStr string
  | DNum nat
  | DNumber js_number
  | DClock
  | DEngineText
  | DLengthOf js_value

record breadcrumb =
  category :: string
  message :: string
  level :: level
  data :: "(string \<times> dval) list"

datatype sentry_call =
    AddBreadcrumb breadcrumb
  | SetContext string "(string \<times> dval) list"
  | CaptureException js_error "(string \<times> dval) list" "(string \<times> (string \<times> dval) list) list"

text \<open>\<^verbatim>\<open>error instanceof Error ? error.name : 'Unknown'\<close> and the same for the message.\<close>

fun error_name :: "js_error \<Rightarrow> dval" where
  "error_name TypeError = DStr ''TypeError''"
| "error_name (ErrorObject n m) = DStr n"
| "error_name NonError = DStr ''Unknown''"

fun error_message :: "string \<Rightarrow> js_error \<Rightarrow> dval" where
  "error_message dflt TypeError = DEngineText"
| "error_message dflt (ErrorObject n m) = DStr m"
| "error_message dflt NonError = DStr dflt"

section \<open>Upstream events and outbound frames\<close>

text \<open>
  The messages of the agent SDK's \<^verbatim>\<open>query\<close> iterator, by their \<^verbatim>\<open>type\<close> tag. The text of a
  delta is a string; \<open>Unserialisable e\<close> stands for a value on which \<^verbatim>\<open>JSON.stringify\<close>
  throws \<open>e\<close>, the one way the \<^verbatim>\<open>try\<close> around the text delta's enqueue fails while the
  controller accepts chunks.
\<close>

datatype delta_text = DeltaText string | Unserialisable js_error

datatype delta = TextDelta delta_text | OtherDelta string

datatype raw_event = ContentBlockDelta "delta option" | OtherRawEvent string

datatype content_block = ToolUse string string | OtherBlock string

datatype sdk_message =
    StreamEvent raw_event
  | AssistantMessage "content_block list option"
  | ToolProgress string js_number
  | Result string
  | OtherMessage string

text \<open>
  What the iterator does: the messages it yields, and how it ends, exhausted or with a pull
  that throws (a throw of the \<^verbatim>\<open>query\<close> call itself is a throw before the first message).
  The run is finite: the agent is called with a bound on its turns.
\<close>

datatype iter_end = Exhausted | Throws js_error

type_synonym upstream = "sdk_message list \<times> iter_end"

datatype frame =
    FTextDelta string
  | FToolStart string
  | FToolProgress string js_number
  | FDone
  | FError string

datatype chunk = Frame frame | Sentinel

subsection \<open>Wire encoding\<close>

definition hex_digit :: "nat \<Rightarrow> char" where
  "hex_digit n = ''0123456789abcdef'' ! (n mod 16)"

definition json_escape :: "char \<Rightarrow> string" where
  "json_escape c =
     (if c = CHR 0x22 then [CHR 0x5C, CHR 0x22]
      else if c = CHR 0x5C then [CHR 0x5C, CHR 0x5C]
      else if c = CHR 0x08 then [CHR 0x5C, CHR ''b'']
      else if c = CHR 0x0C then [CHR 0x5C, CHR ''f'']
      else if c = CHR 0x0A then [CHR 0x5C, CHR ''n'']
      else if c = CHR 0x0D then [CHR 0x5C, CHR ''r'']
      else if c = CHR 0x09 then [CHR 0x5C, CHR ''t'']
      else if (of_char c :: nat) < 32
        then [CHR 0x5C, CHR ''u'', CHR ''0'', CHR ''0'',
              hex_digit (of_char c div 16), hex_digit (of_char c)]
      else [c])"

definition json_string :: "string \<Rightarrow> string" where
  "json_string s = [CHR 0x22] @ concat (map json_escape s) @ [CHR 0x22]"

fun stringify_frame :: "frame \<Rightarrow> string" where
  "stringify_frame (FTextDelta t) =
     ''{\"type\":\"text_delta\",\"text\":'' @ json_string t @ ''}''"
| "stringify_frame (FToolStart n) =
     ''{\"type\":\"tool_start\",\"tool\":'' @ json_string n @ ''}''"
| "stringify_frame (FToolProgress n (JsNumber t)) =
     ''{\"type\":\"tool_progress\",\"tool\":'' @ json_string n @ '',\"elapsed\":'' @ t @ ''}''"
| "stringify_frame FDone = ''{\"type\":\"done\"}''"
| "stringify_frame (FError m) =
     ''{\"type\":\"error\",\"message\":'' @ json_string m @ ''}''"

fun encode :: "chunk \<Rightarrow> string" where
  "encode (Frame f) = ''data: '' @ stringify_frame f @ ''\<newline>\<newline>''"
| "encode Sentinel = ''data: [DONE]\<newline>\<newline>''"

fun terminal :: "chunk \<Rightarrow> bool" where
  "terminal (Frame FDone) = True"
| "terminal (Frame (FError m)) = True"
| "terminal c = False"

section \<open>The stream relay\<close>

record relay_state =
  chunkCount :: nat
  textDeltaCount :: nat
  toolsUsedCount :: nat
  parseErrorCount :: nat
  enqueued :: "chunk list"
  closed :: bool
  crumbs :: "sentry_call list"

definition enqueue :: "chunk \<Rightarrow> relay_state \<Rightarrow> relay_state" where
  "enqueue c s = s\<lparr>enqueued := enqueued s @ [c]\<rparr>"

definition record_call :: "sentry_call \<Rightarrow> relay_state \<Rightarrow> relay_state" where
  "record_call c s = s\<lparr>crumbs := crumbs s @ [c]\<rparr>"

definition encoding_crumb :: "string \<Rightarrow> js_error \<Rightarrow> breadcrumb" where
  "encoding_crumb rid e =
     \<lparr>category = ''chat.stream'', message = ''Parse error during text delta encoding'',
      level = LWarning,
      data = [(''request_id'', DStr rid), (''error_type'', DStr ''text_delta_encoding''),
              (''error'', error_message ''Unknown'' e)]\<rparr>"

text \<open>The five \<^verbatim>\<open>if\<close> statements of the loop body, each looking at the message's tag.\<close>

fun on_stream_event :: "string \<Rightarrow> sdk_message \<Rightarrow> relay_state \<Rightarrow> relay_state" where
  "on_stream_event rid (StreamEvent (ContentBlockDelta (Some (TextDelta (DeltaText t))))) s =
     enqueue (Frame (FTextDelta t)) (s\<lparr>textDeltaCount := textDeltaCount s + 1\<rparr>)"
| "on_stream_event rid (StreamEvent (ContentBlockDelta (Some (TextDelta (Unserialisable e))))) s =
     record_call (AddBreadcrumb (encoding_crumb rid e))
       (s\<lparr>textDeltaCount := textDeltaCount s + 1, parseErrorCount := parseErrorCount s + 1\<rparr>)"
| "on_stream_event rid m s = s"

definition tool_crumb :: "string \<Rightarrow> string \<Rightarrow> string \<Rightarrow> breadcrumb" where
  "tool_crumb rid name ident =
     \<lparr>category = ''chat.tool'', message = ''Tool started: '' @ name, level = LInfo,
      data = [(''request_id'', DStr rid), (''tool_name'', DStr name), (''tool_id'', DStr ident)]\<rparr>"

fun on_blocks :: "string \<Rightarrow> content_block list \<Rightarrow> relay_state \<Rightarrow> relay_state" where
  "on_blocks rid [] s = s"
| "on_blocks rid (ToolUse name ident # bs) s =
     on_blocks rid bs
       (enqueue (Frame (FToolStart name))
          (record_call (AddBreadcrumb (tool_crumb rid name ident))
             (s\<lparr>toolsUsedCount := toolsUsedCount s + 1\<rparr>)))"
| "on_blocks rid (OtherBlock t # bs) s = on_blocks rid bs s"

fun on_assistant :: "string \<Rightarrow> sdk_message \<Rightarrow> relay_state \<Rightarrow> relay_state" where
  "on_assistant rid (AssistantMessage (Some bs)) s = on_blocks rid bs s"
| "on_assistant rid m s = s"

definition progress_crumb :: "string \<Rightarrow> string \<Rightarrow> js_number \<Rightarrow> breadcrumb" where
  "progress_crumb rid name el =
     \<lparr>category = ''chat.tool'', message = ''Tool progress: '' @ name, level = LInfo,
      data = [(''request_id'', DStr rid), (''tool_name'', DStr name),
              (''elapsed_seconds'', DNumber el)]\<rparr>"

fun on_tool_progress :: "string \<Rightarrow> sdk_message \<Rightarrow> relay_state \<Rightarrow> relay_state" where
  "on_tool_progress rid (ToolProgress name el) s =
     enqueue (Frame (FToolProgress name el))
       (record_call (AddBreadcrumb (progress_crumb rid name el)) s)"
| "on_tool_progress rid m s = s"

fun on_result_success :: "sdk_message \<Rightarrow> relay_state \<Rightarrow> relay_state" where
  "on_result_success (Result subtype) s =
     (if subtype = ''success'' then enqueue (Frame FDone) s else s)"
| "on_result_success m s = s"

definition result_error_crumb :: "string \<Rightarrow> string \<Rightarrow> breadcrumb" where
  "result_error_crumb rid subtype =
     \<lparr>category = ''chat.stream'', message = ''Stream result error'', level = LError,
      data = [(''request_id'', DStr rid), (''subtype'', DStr subtype)]\<rparr>"

fun on_result_error :: "string \<Rightarrow> sdk_message \<Rightarrow> relay_state \<Rightarrow> relay_state" where
  "on_result_error rid (Result subtype) s =
     (if subtype \<noteq> ''success''
      then enqueue (Frame (FError ''Query did not complete successfully''))
             (record_call (AddBreadcrumb (result_error_crumb rid subtype)) s)
      else s)"
| "on_result_error rid m s = s"

text \<open>One turn of the \<^verbatim>\<open>for await\<close> loop: count the message, then the five checks in order.\<close>

definition on_message :: "string \<Rightarrow> sdk_message \<Rightarrow> relay_state \<Rightarrow> relay_state" where
  "on_message rid m s =
     on_result_error rid m
       (on_result_success m
          (on_tool_progress rid m
             (on_assistant rid m
                (on_stream_event rid m (s\<lparr>chunkCount := chunkCount s + 1\<rparr>)))))"

fun for_await :: "string \<Rightarrow> sdk_message list \<Rightarrow> relay_state \<Rightarrow> relay_state" where
  "for_await rid [] s = s"
| "for_await rid (m # ms) s = for_await rid ms (on_message rid m s)"

definition done_crumb :: "string \<Rightarrow> breadcrumb" where
  "done_crumb rid =
     \<lparr>category = ''chat.stream'', message = ''Stream [DONE] marker sent'', level = LInfo,
      data = [(''request_id'', DStr rid)]\<rparr>"

definition summary_crumb :: "string \<Rightarrow> nat \<Rightarrow> nat \<Rightarrow> nat \<Rightarrow> nat \<Rightarrow> breadcrumb" where
  "summary_crumb rid chunks deltas tools parse_errors =
     \<lparr>category = ''chat.stream'', message = ''Chat stream completed'', level = LInfo,
      data = [(''request_id'', DStr rid), (''chunk_count'', DNum chunks),
              (''text_delta_count'', DNum deltas), (''tools_used_count'', DNum tools),
              (''parse_error_count'', DNum parse_errors), (''duration_seconds'', DClock)]\<rparr>"

definition stream_error_crumb :: "string \<Rightarrow> js_error \<Rightarrow> breadcrumb" where
  "stream_error_crumb rid e =
     \<lparr>category = ''chat.stream'', message = ''Stream error'', level = LError,
      data = [(''request_id'', DStr rid), (''error_name'', error_name e),
              (''error_message'', error_message ''Unknown error'' e)]\<rparr>"

text \<open>After the loop: the statements behind it when the iterator is exhausted, the
  \<^verbatim>\<open>catch\<close> branch when a pull throws.\<close>

fun finish :: "string \<Rightarrow> iter_end \<Rightarrow> relay_state \<Rightarrow> relay_state" where
  "finish rid Exhausted s =
     (let s1 = record_call (AddBreadcrumb (done_crumb rid)) s;
          s2 = enqueue Sentinel s1;
          s3 = s2\<lparr>closed := True\<rparr>
      in record_call
           (AddBreadcrumb (summary_crumb rid (chunkCount s3) (textDeltaCount s3)
              (toolsUsedCount s3) (parseErrorCount s3))) s3)"
| "finish rid (Throws e) s =
     (let s1 = record_call (AddBreadcrumb (stream_error_crumb rid e)) s;
          s2 = record_call
                 (CaptureException e
                    [(''request_id'', DStr rid), (''error_location'', DStr ''stream_processing'')]
                    [(''stream'', [(''chunk_count'', DNum (chunkCount s1)),
                                   (''text_delta_count'', DNum (textDeltaCount s1)),
                                   (''tools_used_count'', DNum (toolsUsedCount s1))])]) s1;
          s3 = enqueue (Frame (FError ''Stream error occurred'')) s2
      in s3\<lparr>closed := True\<rparr>)"

definition initial :: relay_state where
  "initial = \<lparr>chunkCount = 0, textDeltaCount = 0, toolsUsedCount = 0, parseErrorCount = 0,
              enqueued = [], closed = False, crumbs = []\<rparr>"

text \<open>The \<^verbatim>\<open>start\<close> callback of the response stream, run on what the iterator does.\<close>

definition start :: "string \<Rightarrow> upstream \<Rightarrow> relay_state" where
  "start rid up = finish rid (snd up) (for_await rid (fst up) initial)"

text \<open>The bytes of the response body.\<close>

definition wire :: "relay_state \<Rightarrow> string" where
  "wire s = concat (map encode (enqueued s))"

section \<open>The request handler\<close>

definition SYSTEM_PROMPT :: string where
  "SYSTEM_PROMPT = join ''\<newline>''
     [''You are a helpful personal assistant designed to help with general research, questions, and tasks.'',
      [],
      ''Your role is to:'',
      ''- Answer questions on any topic accurately and thoroughly'',
      ''- Help with research by searching the web for current information'',
      ''- Assist with writing, editing, and brainstorming'',
      ''- Provide explanations and summaries of complex topics'',
      ''- Help solve problems and think through decisions'',
      [],
      ''Guidelines:'',
      ''- Be friendly, clear, and conversational'',
      ''- Use web search when you need current information, facts you're unsure about, or real-time data'',
      ''- Keep responses concise but complete - expand when the topic warrants depth'',
      ''- Use markdown formatting when it helps readability (bullet points, code blocks, etc.)'',
      ''- Be honest when you don't know something and offer to search for answers'']"

text \<open>The declared shape of a message, \<^verbatim>\<open>interface MessageInput\<close>, and the parsed JSON of one.
  The handler casts the parsed body to \<^verbatim>\<open>{ messages: MessageInput[] }\<close> without a check.\<close>

datatype Role = User | Assistant

record MessageInput =
  role :: Role
  content :: string

definition message_value :: "MessageInput \<Rightarrow> js_value" where
  "message_value m =
     JObj [(''role'', JStr (case role m of User \<Rightarrow> ''user'' | Assistant \<Rightarrow> ''assistant'')),
           (''content'', JStr (content m))]"

definition request_body :: "MessageInput list \<Rightarrow> js_value" where
  "request_body ms = JObj [(''messages'', JArr (map message_value ms))]"

datatype body = JsonBody string | StreamBody relay_state

record http_response =
  status :: nat
  headers :: "(string \<times> string) list"
  body :: body

text \<open>What a call of the handler leaves: the response, the telemetry calls the handler
  itself makes, and the prompts passed to the agent's \<^verbatim>\<open>query\<close>. The telemetry calls of
  the stream are kept with the stream (\<open>crumbs\<close>): the handler returns while the stream is
  still being produced.\<close>

record outcome =
  response :: http_response
  sentry :: "sentry_call list"
  queries :: "string list"

definition error_response :: "nat \<Rightarrow> string \<Rightarrow> http_response" where
  "error_response code msg =
     \<lparr>status = code, headers = [(''Content-Type'', ''application/json'')],
      body = JsonBody (''{\"error\":'' @ json_string msg @ ''}'')\<rparr>"

definition stream_response :: "relay_state \<Rightarrow> http_response" where
  "stream_response s =
     \<lparr>status = 200,
      headers = [(''Content-Type'', ''text/event-stream''), (''Cache-Control'', ''no-cache''),
                 (''Connection'', ''keep-alive'')],
      body = StreamBody s\<rparr>"

definition received_crumb :: "string \<Rightarrow> breadcrumb" where
  "received_crumb rid =
     \<lparr>category = ''chat'', message = ''Chat request received'', level = LInfo,
      data = [(''request_id'', DStr rid), (''timestamp'', DClock)]\<rparr>"

definition validation_crumb :: "string \<Rightarrow> string \<Rightarrow> string \<Rightarrow> breadcrumb" where
  "validation_crumb rid msg kind =
     \<lparr>category = ''chat.validation'', message = msg, level = LWarning,
      data = [(''request_id'', DStr rid), (''error_type'', DStr kind)]\<rparr>"

definition stream_started_crumb :: "string \<Rightarrow> nat \<Rightarrow> dval \<Rightarrow> breadcrumb" where
  "stream_started_crumb rid n len =
     \<lparr>category = ''chat.stream'', message = ''Chat stream started'', level = LInfo,
      data = [(''request_id'', DStr rid), (''message_count'', DNum n),
              (''last_message_length'', len)]\<rparr>"

definition request_completed_crumb :: "string \<Rightarrow> breadcrumb" where
  "request_completed_crumb rid =
     \<lparr>category = ''chat'', message = ''Request completed'', level = LInfo,
      data = [(''request_id'', DStr rid), (''total_duration_seconds'', DClock)]\<rparr>"

definition api_error_crumb :: "string \<Rightarrow> js_error \<Rightarrow> breadcrumb" where
  "api_error_crumb rid e =
     \<lparr>category = ''chat.api'', message = ''API error'', level = LError,
      data = [(''request_id'', DStr rid), (''error_name'', error_name e),
              (''error_message'', error_message ''Unknown error'' e)]\<rparr>"

text \<open>\<^verbatim>\<open>m.role === 'user'\<close>\<close>

definition is_user :: "js_value \<Rightarrow> js_error + bool" where
  "is_user m = (case get_prop m ''role'' of Inl e \<Rightarrow> Inl e | Inr r \<Rightarrow> Inr (r = JStr ''user''))"

text \<open>\<^verbatim>\<open>messages.filter(m => m.role === 'user')\<close>\<close>

fun filter_user :: "js_value list \<Rightarrow> js_error + js_value list" where
  "filter_user [] = Inr []"
| "filter_user (m # ms) =
     (case is_user m of
        Inl e \<Rightarrow> Inl e
      | Inr u \<Rightarrow> (case filter_user ms of
                   Inl e \<Rightarrow> Inl e
                 | Inr us \<Rightarrow> Inr (if u then m # us else us)))"

text \<open>The template literal of the transcript, one message.\<close>

definition render :: "js_value \<Rightarrow> js_error + string" where
  "render m =
     (case is_user m of
        Inl e \<Rightarrow> Inl e
      | Inr u \<Rightarrow>
          (case get_prop m ''content'' of
             Inl e \<Rightarrow> Inl e
           | Inr c \<Rightarrow>
               (case to_string c of
                  Inl e \<Rightarrow> Inl e
                | Inr t \<Rightarrow> Inr ((if u then ''User'' else ''Assistant'') @ '': '' @ t))))"

fun map_render :: "js_value list \<Rightarrow> js_error + string list" where
  "map_render [] = Inr []"
| "map_render (m # ms) =
     (case render m of
        Inl e \<Rightarrow> Inl e
      | Inr l \<Rightarrow> (case map_render ms of Inl e \<Rightarrow> Inl e | Inr ls \<Rightarrow> Inr (l # ls)))"

text \<open>\<^verbatim>\<open>messages.slice(0, -1).map(...).join('\n\n')\<close>\<close>

definition conversationContext :: "js_value list \<Rightarrow> js_error + string" where
  "conversationContext ms =
     (case map_render (butlast ms) of
        Inl e \<Rightarrow> Inl e
      | Inr ls \<Rightarrow> Inr (join ''\<newline>\<newline>'' ls))"

definition fullPrompt :: "string \<Rightarrow> js_value \<Rightarrow> js_error + string" where
  "fullPrompt ctx lastUserMessage =
     (case get_prop lastUserMessage ''content'' of
        Inl e \<Rightarrow> Inl e
      | Inr c \<Rightarrow>
          (case to_string c of
             Inl e \<Rightarrow> Inl e
           | Inr t \<Rightarrow>
               Inr (if ctx \<noteq> []
                    then SYSTEM_PROMPT @ ''\<newline>\<newline>Previous conversation:\<newline>'' @ ctx
                           @ ''\<newline>\<newline>User: '' @ t
                    else SYSTEM_PROMPT @ ''\<newline>\<newline>User: '' @ t)))"

text \<open>\<^verbatim>\<open>lastUserMessage.content.length\<close>, read for the breadcrumb of the stream's start.\<close>

definition content_length :: "js_value \<Rightarrow> js_error + dval" where
  "content_length lastUserMessage =
     (case get_prop lastUserMessage ''content'' of
        Inl e \<Rightarrow> Inl e
      | Inr c \<Rightarrow> if c = JUndefined \<or> c = JNull then Inl TypeError else Inr (DLengthOf c))"

text \<open>
  The body of the handler's \<^verbatim>\<open>try\<close>, after the first breadcrumb: \<open>Inl\<close> is an exception on
  its way to the handler's \<^verbatim>\<open>catch\<close>. \<open>request_json\<close> is what \<^verbatim>\<open>await request.json()\<close>
  gives (a rejection or the parsed body), \<open>query\<close> is the agent, from the prompt to what
  its iterator does.
\<close>

definition try_body ::
  "string \<Rightarrow> js_error + js_value \<Rightarrow> (string \<Rightarrow> upstream)
     \<Rightarrow> js_error + http_response \<times> sentry_call list \<times> string list" where
  "try_body rid request_json query =
     (case request_json of
        Inl e \<Rightarrow> Inl e
      | Inr parsed \<Rightarrow>
     (case get_prop parsed ''messages'' of
        Inl e \<Rightarrow> Inl e
      | Inr messages \<Rightarrow>
     if \<not> truthy messages \<or> \<not> isArray messages
     then Inr (error_response 400 ''Messages array is required'',
               [AddBreadcrumb (validation_crumb rid ''Validation error: missing messages''
                  ''missing_messages'')], [])
     else
     (case filter_user (elements messages) of
        Inl e \<Rightarrow> Inl e
      | Inr users \<Rightarrow>
     if users = []
     then Inr (error_response 400 ''No user message found'',
               [AddBreadcrumb (validation_crumb rid ''Validation error: no user message''
                  ''no_user_message'')], [])
     else
     (case conversationContext (elements messages) of
        Inl e \<Rightarrow> Inl e
      | Inr ctx \<Rightarrow>
     (case fullPrompt ctx (last users) of
        Inl e \<Rightarrow> Inl e
      | Inr p \<Rightarrow>
     (case content_length (last users) of
        Inl e \<Rightarrow> Inl e
      | Inr len \<Rightarrow>
          Inr (stream_response (start rid (query p)),
               [AddBreadcrumb (stream_started_crumb rid (length (elements messages)) len),
                AddBreadcrumb (request_completed_crumb rid)],
               [p])))))))"

definition POST :: "string \<Rightarrow> js_error + js_value \<Rightarrow> (string \<Rightarrow> upstream) \<Rightarrow> outcome" where
  "POST rid request_json query =
     (let log0 = [AddBreadcrumb (received_crumb rid),
                  SetContext ''request'' [(''request_id'', DStr rid)]]
      in case try_body rid request_json query of
           Inr (resp, calls, qs) \<Rightarrow> \<lparr>response = resp, sentry = log0 @ calls, queries = qs\<rparr>
         | Inl e \<Rightarrow>
             \<lparr>response = error_response 500
                  ''Failed to process chat request. Check server logs for details.'',
              sentry = log0 @ [AddBreadcrumb (api_error_crumb rid e),
                               CaptureException e
                                 [(''request_id'', DStr rid), (''error_location'', DStr ''api_handler'')]
                                 []],
              queries = []\<rparr>)"

section \<open>Derived notions used in the statements\<close>

text \<open>The chunks one turn of the loop enqueues, read off the loop body; the lemmas below
  show that the loop enqueues exactly these.\<close>

fun tool_starts :: "content_block list \<Rightarrow> chunk list" where
  "tool_starts [] = []"
| "tool_starts (ToolUse name ident # bs) = Frame (FToolStart name) # tool_starts bs"
| "tool_starts (OtherBlock t # bs) = tool_starts bs"

fun emitted :: "sdk_message \<Rightarrow> chunk list" where
  "emitted (StreamEvent (ContentBlockDelta (Some (TextDelta (DeltaText t))))) =
     [Frame (FTextDelta t)]"
| "emitted (AssistantMessage (Some bs)) = tool_starts bs"
| "emitted (ToolProgress name el) = [Frame (FToolProgress name el)]"
| "emitted (Result subtype) =
     (if subtype = ''success'' then [Frame FDone]
      else [Frame (FError ''Query did not complete successfully'')])"
| "emitted m = []"

text \<open>An upstream message with the tag \<^verbatim>\<open>result\<close>.\<close>

fun is_result :: "sdk_message \<Rightarrow> bool" where
  "is_result (Result subtype) = True"
| "is_result m = False"

text \<open>
  The prompt as the specification words it, on messages of the declared shape: the
  transcript is every message but the last element of the array, each rendered as role,
  colon, content, joined by blank lines; the prompt ends with the content of the last
  message whose role is user.
\<close>

definition spec_render :: "MessageInput \<Rightarrow> string" where
  "spec_render m =
     (case role m of User \<Rightarrow> ''User'' | Assistant \<Rightarrow> ''Assistant'') @ '': '' @ content m"

definition spec_transcript :: "MessageInput list \<Rightarrow> string" where
  "spec_transcript ms = join ''\<newline>\<newline>'' (map spec_render (butlast ms))"

definition last_user_content :: "MessageInput list \<Rightarrow> string" where
  "last_user_content ms = content (last (filter (\<lambda>m. role m = User) ms))"

definition spec_prompt :: "MessageInput list \<Rightarrow> string" where
  "spec_prompt ms =
     (if spec_transcript ms \<noteq> []
      then SYSTEM_PROMPT @ ''\<newline>\<newline>Previous conversation:\<newline>'' @ spec_transcript ms
             @ ''\<newline>\<newline>User: '' @ last_user_content ms
      else SYSTEM_PROMPT @ ''\<newline>\<newline>User: '' @ last_user_content ms)"

text \<open>The terminal frame the loop enqueues for a message: one for a \<^verbatim>\<open>result\<close>, \<open>done\<close> when
  its subtype is success and the error frame otherwise, none for any other message.\<close>

fun result_frames :: "sdk_message \<Rightarrow> chunk list" where
  "result_frames (Result subtype) =
     [Frame (if subtype = ''success'' then FDone
             else FError ''Query did not complete successfully'')]"
| "result_frames m = []"

text \<open>
  The prompt as claim C4 words it: the transcript is all messages except the most recent
  user turn, that is the sequence without its last message of role user.
\<close>

fun remove_first_user :: "MessageInput list \<Rightarrow> MessageInput list" where
  "remove_first_user [] = []"
| "remove_first_user (m # ms) = (if role m = User then ms else m # remove_first_user ms)"

definition without_last_user_turn :: "MessageInput list \<Rightarrow> MessageInput list" where
  "without_last_user_turn ms = rev (remove_first_user (rev ms))"

definition claimed_transcript :: "MessageInput list \<Rightarrow> string" where
  "claimed_transcript ms = join ''\<newline>\<newline>'' (map spec_render (without_last_user_turn ms))"

definition claimed_prompt :: "MessageInput list \<Rightarrow> string" where
  "claimed_prompt ms =
     (if claimed_transcript ms \<noteq> []
      then SYSTEM_PROMPT @ ''\<newline>\<newline>Previous conversation:\<newline>'' @ claimed_transcript ms
             @ ''\<newline>\<newline>User: '' @ last_user_content ms
      else SYSTEM_PROMPT @ ''\<newline>\<newline>User: '' @ last_user_content ms)"

text \<open>An agent whose iterator yields nothing, and some messages, for the examples.\<close>

definition silent :: "string \<Rightarrow> upstream" where
  "silent p = ([], Exhausted)"

definition text_delta :: "string \<Rightarrow> sdk_message" where
  "text_delta t = StreamEvent (ContentBlockDelta (Some (TextDelta (DeltaText t))))"

definition failing_delta :: "js_error \<Rightarrow> sdk_message" where
  "failing_delta e = StreamEvent (ContentBlockDelta (Some (TextDelta (Unserialisable e))))"

section \<open>Properties of the relay loop\<close>

lemma enqueue_fields [simp]:
  "enqueued (enqueue c s) = enqueued s @ [c]"
  "closed (enqueue c s) = closed s"
  "crumbs (enqueue c s) = crumbs s"
  "chunkCount (enqueue c s) = chunkCount s"
  "textDeltaCount (enqueue c s) = textDeltaCount s"
  "toolsUsedCount (enqueue c s) = toolsUsedCount s"
  "parseErrorCount (enqueue c s) = parseErrorCount s"
  by (simp_all add: enqueue_def)

lemma record_call_fields [simp]:
  "enqueued (record_call c s) = enqueued s"
  "closed (record_call c s) = closed s"
  "crumbs (record_call c s) = crumbs s @ [c]"
  "chunkCount (record_call c s) = chunkCount s"
  "textDeltaCount (record_call c s) = textDeltaCount s"
  "toolsUsedCount (record_call c s) = toolsUsedCount s"
  "parseErrorCount (record_call c s) = parseErrorCount s"
  by (simp_all add: record_call_def)

lemma on_blocks_fields:
  "enqueued (on_blocks rid bs s) = enqueued s @ tool_starts bs"
  "closed (on_blocks rid bs s) = closed s"
  "chunkCount (on_blocks rid bs s) = chunkCount s"
  "textDeltaCount (on_blocks rid bs s) = textDeltaCount s"
  "parseErrorCount (on_blocks rid bs s) = parseErrorCount s"
  "toolsUsedCount (on_blocks rid bs s) = toolsUsedCount s + length (tool_starts bs)"
  by (induction rid bs s rule: on_blocks.induct) simp_all

lemma enqueued_on_message: "enqueued (on_message rid m s) = enqueued s @ emitted m"
  by (cases m rule: emitted.cases) (simp_all add: on_message_def on_blocks_fields)

lemma closed_on_message: "closed (on_message rid m s) = closed s"
  by (cases m rule: emitted.cases) (simp_all add: on_message_def on_blocks_fields)

lemma chunkCount_on_message: "chunkCount (on_message rid m s) = chunkCount s + 1"
  by (cases m rule: emitted.cases) (simp_all add: on_message_def on_blocks_fields)

lemma textDeltaCount_on_message:
  "textDeltaCount s \<le> textDeltaCount (on_message rid m s)"
  "textDeltaCount (on_message rid m s) \<le> textDeltaCount s + 1"
  by (cases m rule: emitted.cases; simp add: on_message_def on_blocks_fields)+

lemma toolsUsedCount_on_message: "toolsUsedCount s \<le> toolsUsedCount (on_message rid m s)"
  by (cases m rule: emitted.cases) (simp_all add: on_message_def on_blocks_fields)

lemma parseErrorCount_on_message: "parseErrorCount s \<le> parseErrorCount (on_message rid m s)"
  by (cases m rule: emitted.cases) (simp_all add: on_message_def on_blocks_fields)

lemma for_await_append:
  "for_await rid (xs @ ys) s = for_await rid ys (for_await rid xs s)"
  by (induction xs arbitrary: s) simp_all

lemma enqueued_for_await:
  "enqueued (for_await rid ms s) = enqueued s @ concat (map emitted ms)"
  by (induction ms arbitrary: s) (simp_all add: enqueued_on_message)

lemma closed_for_await: "closed (for_await rid ms s) = closed s"
  by (induction ms arbitrary: s) (simp_all add: closed_on_message)

lemma chunkCount_for_await: "chunkCount (for_await rid ms s) = chunkCount s + length ms"
  by (induction ms arbitrary: s) (simp_all add: chunkCount_on_message)

lemma textDeltaCount_for_await:
  "textDeltaCount s \<le> textDeltaCount (for_await rid ms s)"
  "textDeltaCount (for_await rid ms s) \<le> textDeltaCount s + length ms"
proof (induction ms arbitrary: s)
  case Nil
  { case 1 show ?case by simp }
  { case 2 show ?case by simp }
next
  case (Cons m ms)
  { case 1 show ?case
      using Cons.IH(1) [of "on_message rid m s"] textDeltaCount_on_message(1) [of s rid m]
      by simp }
  { case 2 show ?case
      using Cons.IH(2) [of "on_message rid m s"] textDeltaCount_on_message(2) [of rid m s]
      by simp }
qed

lemma toolsUsedCount_for_await: "toolsUsedCount s \<le> toolsUsedCount (for_await rid ms s)"
proof (induction ms arbitrary: s)
  case Nil
  show ?case by simp
next
  case (Cons m ms)
  show ?case
    using Cons.IH [of "on_message rid m s"] toolsUsedCount_on_message [of s rid m] by simp
qed

lemma parseErrorCount_for_await: "parseErrorCount s \<le> parseErrorCount (for_await rid ms s)"
proof (induction ms arbitrary: s)
  case Nil
  show ?case by simp
next
  case (Cons m ms)
  show ?case
    using Cons.IH [of "on_message rid m s"] parseErrorCount_on_message [of s rid m] by simp
qed

lemma emitted_initial: "enqueued (on_message rid m initial) = emitted m"
  by (simp add: enqueued_on_message initial_def)

lemma finish_counters:
  "chunkCount (finish rid en s) = chunkCount s"
  "textDeltaCount (finish rid en s) = textDeltaCount s"
  "toolsUsedCount (finish rid en s) = toolsUsedCount s"
  "parseErrorCount (finish rid en s) = parseErrorCount s"
  by (cases en; simp add: Let_def)+

lemma crumbs_finish_Exhausted:
  "crumbs (finish rid Exhausted s) =
     crumbs s @ [AddBreadcrumb (done_crumb rid),
                 AddBreadcrumb (summary_crumb rid (chunkCount s) (textDeltaCount s)
                   (toolsUsedCount s) (parseErrorCount s))]"
  by (simp add: Let_def)

lemma enqueued_finish:
  "enqueued (finish rid Exhausted s) = enqueued s @ [Sentinel]"
  "enqueued (finish rid (Throws e) s) = enqueued s @ [Frame (FError ''Stream error occurred'')]"
  "closed (finish rid en s)"
  by (cases en; simp add: Let_def)+

lemma no_sentinel_tool_starts: "Sentinel \<notin> set (tool_starts bs)"
  by (induction bs rule: tool_starts.induct) simp_all

lemma no_sentinel_emitted: "Sentinel \<notin> set (emitted m)"
  by (cases m rule: emitted.cases) (simp_all add: no_sentinel_tool_starts)

lemma terminal_tool_starts: "filter terminal (tool_starts bs) = []"
  by (induction bs rule: tool_starts.induct) simp_all

lemma terminal_emitted:
  "length (filter terminal (emitted m)) = (if is_result m then 1 else 0)"
  by (cases m rule: emitted.cases) (simp_all add: terminal_tool_starts)

lemma terminal_for_await:
  "length (filter terminal (concat (map emitted ms))) = length (filter is_result ms)"
  by (induction ms) (simp_all add: terminal_emitted)

lemma terminal_emitted_frames: "filter terminal (emitted m) = result_frames m"
  by (cases m rule: emitted.cases) (simp_all add: terminal_tool_starts)

lemma terminal_frames_for_await:
  "filter terminal (concat (map emitted ms)) = concat (map result_frames ms)"
  by (induction ms) (simp_all add: terminal_emitted_frames)

lemma wire_start:
  "wire (start rid (ms, Exhausted)) =
     wire (for_await rid ms initial) @ ''data: [DONE]\<newline>\<newline>''"
  "wire (start rid (ms, Throws e)) =
     wire (for_await rid ms initial)
     @ ''data: {\"type\":\"error\",\"message\":\"Stream error occurred\"}\<newline>\<newline>''"
  by (simp_all add: wire_def start_def enqueued_finish json_string_def json_escape_def)

subsection \<open>The end of the stream\<close>

text \<open>
  Claim C1 says that the stream of every request that reaches the streaming state ends with
  the line \<open>data: [DONE]\<close> and two newlines before it is closed, also when the upstream
  iterator throws. The code does this when the iterator is exhausted, and not when a pull
  throws: the \<^verbatim>\<open>catch\<close> branch enqueues the error frame and closes the stream without the
  \<open>[DONE]\<close> line. After two text deltas and a throw the stream is the two frames and the error
  frame, and it is closed; whatever came before a throw, the stream holds no \<open>[DONE]\<close> line
  and its last chunk is the error frame.
\<close>

theorem C1_throw_closes_without_sentinel:
  "enqueued (start rid ([text_delta ''a'', text_delta ''b''], Throws e)) =
     [Frame (FTextDelta ''a''), Frame (FTextDelta ''b''), Frame (FError ''Stream error occurred'')]
   \<and> wire (start rid ([text_delta ''a'', text_delta ''b''], Throws e)) =
       ''data: {\"type\":\"text_delta\",\"text\":\"a\"}\<newline>\<newline>''
       @ ''data: {\"type\":\"text_delta\",\"text\":\"b\"}\<newline>\<newline>''
       @ ''data: {\"type\":\"error\",\"message\":\"Stream error occurred\"}\<newline>\<newline>''
   \<and> closed (start rid (ms, Throws e))
   \<and> Sentinel \<notin> set (enqueued (start rid (ms, Throws e)))
   \<and> last (enqueued (start rid (ms, Throws e))) = Frame (FError ''Stream error occurred'')
   \<and> wire (start rid (ms, Throws e)) =
       wire (for_await rid ms initial)
       @ ''data: {\"type\":\"error\",\"message\":\"Stream error occurred\"}\<newline>\<newline>''
   \<and> closed (start rid (ms, Exhausted))
   \<and> last (enqueued (start rid (ms, Exhausted))) = Sentinel
   \<and> wire (start rid (ms, Exhausted)) =
       wire (for_await rid ms initial) @ ''data: [DONE]\<newline>\<newline>''"
proof (intro conjI)
  show "Sentinel \<notin> set (enqueued (start rid (ms, Throws e)))"
    by (simp add: start_def enqueued_finish enqueued_for_await initial_def no_sentinel_emitted)
  show "wire (start rid (ms, Throws e)) =
       wire (for_await rid ms initial)
       @ ''data: {\"type\":\"error\",\"message\":\"Stream error occurred\"}\<newline>\<newline>''"
    by (rule wire_start)
  show "wire (start rid (ms, Exhausted)) =
       wire (for_await rid ms initial) @ ''data: [DONE]\<newline>\<newline>''"
    by (rule wire_start)
qed (simp_all add: start_def enqueued_finish wire_def on_message_def initial_def
    text_delta_def json_string_def json_escape_def)

text \<open>
  Claim C2 says that every request's stream carries exactly one terminal frame (\<open>done\<close> or
  \<open>error\<close>), whatever the upstream sequence. The loop has no such bound: it enqueues a
  terminal frame for each \<open>result\<close> message it pulls. With two results the stream carries two
  terminal frames, with none it carries none.
\<close>

theorem C2_counterexample:
  "length (filter terminal
      (enqueued (start ''r'' ([Result ''success'', Result ''error_max_turns''], Exhausted)))) = 2
   \<and> length (filter terminal (enqueued (start ''r'' ([], Exhausted)))) = 0"
  by (simp add: start_def on_message_def initial_def Let_def)

text \<open>
  Claim C2, amended. The stream carries one terminal frame for each \<open>result\<close> message
  pulled, \<open>done\<close> when the subtype is success and the error frame otherwise, in the order
  the results are pulled, and one more (the error frame of the \<^verbatim>\<open>catch\<close> branch) at the end
  when a pull throws; no other message adds a terminal frame. When the iterator is
  exhausted the stream ends with the end-of-stream sentinel, which occurs once.
\<close>

theorem C2_one_terminal_frame_per_result:
  "length (filter terminal (enqueued (start rid (ms, Exhausted)))) = length (filter is_result ms)
   \<and> length (filter terminal (enqueued (start rid (ms, Throws e)))) =
       length (filter is_result ms) + 1
   \<and> last (enqueued (start rid (ms, Exhausted))) = Sentinel
   \<and> length (filter (\<lambda>c. c = Sentinel) (enqueued (start rid (ms, Exhausted)))) = 1
   \<and> enqueued (on_message rid (Result subtype) s) =
       enqueued s @ [Frame (if subtype = ''success'' then FDone
                            else FError ''Query did not complete successfully'')]
   \<and> filter terminal (enqueued (on_message rid m s)) =
       filter terminal (enqueued s) @ result_frames m
   \<and> filter terminal (enqueued (start rid (ms, Exhausted))) = concat (map result_frames ms)
   \<and> filter terminal (enqueued (start rid (ms, Throws e))) =
       concat (map result_frames ms) @ [Frame (FError ''Stream error occurred'')]
   \<and> last (enqueued (start rid (ms, Throws e))) = Frame (FError ''Stream error occurred'')"
proof -
  have none: "filter (\<lambda>c. c = Sentinel) (concat (map emitted ms)) = []"
    using no_sentinel_emitted by (auto simp: filter_empty_conv)
  have one: "enqueued (on_message rid (Result subtype) s) =
       enqueued s @ [Frame (if subtype = ''success'' then FDone
                            else FError ''Query did not complete successfully'')]"
    by (simp add: on_message_def)
  have turn: "filter terminal (enqueued (on_message rid m s)) =
       filter terminal (enqueued s) @ result_frames m"
    by (simp add: enqueued_on_message terminal_emitted_frames)
  have counts: "length (filter terminal (enqueued (start rid (ms, Exhausted)))) =
        length (filter is_result ms)
      \<and> length (filter terminal (enqueued (start rid (ms, Throws e)))) =
        length (filter is_result ms) + 1
      \<and> last (enqueued (start rid (ms, Exhausted))) = Sentinel
      \<and> length (filter (\<lambda>c. c = Sentinel) (enqueued (start rid (ms, Exhausted)))) = 1"
    by (simp add: start_def enqueued_finish enqueued_for_await initial_def terminal_for_await
        none)
  have frames: "filter terminal (enqueued (start rid (ms, Exhausted))) =
        concat (map result_frames ms)
      \<and> filter terminal (enqueued (start rid (ms, Throws e))) =
        concat (map result_frames ms) @ [Frame (FError ''Stream error occurred'')]
      \<and> last (enqueued (start rid (ms, Throws e))) = Frame (FError ''Stream error occurred'')"
    by (simp add: start_def enqueued_finish enqueued_for_await initial_def
        terminal_frames_for_await)
  show ?thesis
    using one turn counts frames by blast
qed

subsection \<open>Order of the frames\<close>

text \<open>
  Claim C3. Outbound frames are enqueued in the order the upstream messages are pulled, with
  no reordering and no buffering: what the loop enqueues for a sequence \<open>xs @ ys\<close> is what it
  enqueues for \<open>xs\<close>, followed by the frames of each message of \<open>ys\<close> in turn, whatever the
  state. For the upstream sequence text delta \<open>a\<close>, tool use \<open>search\<close>, text delta \<open>b\<close>,
  successful result, the stream is the frames \<open>text_delta{a}\<close>, \<open>tool_start{search}\<close>,
  \<open>text_delta{b}\<close>, \<open>done\<close> and then the \<open>[DONE]\<close> line, in that order.
\<close>

theorem C3_frames_in_upstream_order:
  "enqueued (for_await rid (xs @ ys) s) =
     enqueued (for_await rid xs s) @ concat (map (\<lambda>m. enqueued (on_message rid m initial)) ys)
   \<and> enqueued (start rid
        ([text_delta ''a'', AssistantMessage (Some [ToolUse ''search'' ident]),
          text_delta ''b'', Result ''success''], Exhausted)) =
      [Frame (FTextDelta ''a''), Frame (FToolStart ''search''), Frame (FTextDelta ''b''),
       Frame FDone, Sentinel]
   \<and> wire (start rid
        ([text_delta ''a'', AssistantMessage (Some [ToolUse ''search'' ident]),
          text_delta ''b'', Result ''success''], Exhausted)) =
      ''data: {\"type\":\"text_delta\",\"text\":\"a\"}\<newline>\<newline>''
      @ ''data: {\"type\":\"tool_start\",\"tool\":\"search\"}\<newline>\<newline>''
      @ ''data: {\"type\":\"text_delta\",\"text\":\"b\"}\<newline>\<newline>''
      @ ''data: {\"type\":\"done\"}\<newline>\<newline>''
      @ ''data: [DONE]\<newline>\<newline>''"
proof (intro conjI)
  show "enqueued (for_await rid (xs @ ys) s) =
     enqueued (for_await rid xs s) @ concat (map (\<lambda>m. enqueued (on_message rid m initial)) ys)"
    by (simp add: for_await_append enqueued_for_await [of rid ys] emitted_initial)
qed (simp_all add: wire_def start_def on_message_def initial_def Let_def text_delta_def
    json_string_def json_escape_def)

subsection \<open>Text deltas\<close>

text \<open>
  Claim C7. A stream event with a content block delta of type text delta increments
  \<open>textDeltaCount\<close> and, when the frame can be encoded, appends the text delta frame to the
  stream, leaving the telemetry and \<open>parseErrorCount\<close> as they were. When the encoding
  throws, \<open>parseErrorCount\<close> is incremented, a breadcrumb of level warning is appended to
  the telemetry, nothing is enqueued and the stream stays open; the loop goes on with the
  messages that follow, and the stream of the whole request is the one it would be without
  the failed delta.
\<close>

theorem C7_text_delta_handling:
  "textDeltaCount (on_message rid (StreamEvent (ContentBlockDelta (Some (TextDelta t)))) s) =
     textDeltaCount s + 1
   \<and> on_message rid (text_delta txt) s =
       enqueue (Frame (FTextDelta txt))
         (s\<lparr>chunkCount := chunkCount s + 1, textDeltaCount := textDeltaCount s + 1\<rparr>)
   \<and> on_message rid (failing_delta e) s =
       record_call (AddBreadcrumb (encoding_crumb rid e))
         (s\<lparr>chunkCount := chunkCount s + 1, textDeltaCount := textDeltaCount s + 1,
            parseErrorCount := parseErrorCount s + 1\<rparr>)
   \<and> level (encoding_crumb rid e) = LWarning
   \<and> enqueued (on_message rid (failing_delta e) s) = enqueued s
   \<and> closed (on_message rid (failing_delta e) s) = closed s
   \<and> for_await rid (pre @ failing_delta e # post) s =
       for_await rid post (on_message rid (failing_delta e) (for_await rid pre s))
   \<and> enqueued (start rid (pre @ failing_delta e # post, en)) =
       enqueued (start rid (pre @ post, en))
   \<and> enqueued (on_message rid (text_delta txt) s) = enqueued s @ [Frame (FTextDelta txt)]
   \<and> encode (Frame (FTextDelta txt)) =
       ''data: {\"type\":\"text_delta\",\"text\":'' @ json_string txt @ ''}\<newline>\<newline>''
   \<and> crumbs (on_message rid (text_delta txt) s) = crumbs s
   \<and> parseErrorCount (on_message rid (text_delta txt) s) = parseErrorCount s
   \<and> closed (on_message rid (text_delta txt) s) = closed s
   \<and> crumbs (on_message rid (failing_delta e) s) =
       crumbs s @ [AddBreadcrumb (encoding_crumb rid e)]
   \<and> category (encoding_crumb rid e) = ''chat.stream''
   \<and> message (encoding_crumb rid e) = ''Parse error during text delta encoding''
   \<and> parseErrorCount (on_message rid (failing_delta e) s) = parseErrorCount s + 1
   \<and> textDeltaCount (on_message rid (failing_delta e) s) = textDeltaCount s + 1
   \<and> enqueued (for_await rid (failing_delta e # post) s) =
       enqueued s @ concat (map (\<lambda>m. enqueued (on_message rid m initial)) post)"
proof (intro conjI)
  show "textDeltaCount (on_message rid (StreamEvent (ContentBlockDelta (Some (TextDelta t)))) s) =
     textDeltaCount s + 1"
    by (cases t) (simp_all add: on_message_def)
  show "enqueued (start rid (pre @ failing_delta e # post, en)) =
       enqueued (start rid (pre @ post, en))"
    by (cases en) (simp_all add: start_def enqueued_finish enqueued_for_await failing_delta_def)
  show "enqueued (for_await rid (failing_delta e # post) s) =
       enqueued s @ concat (map (\<lambda>m. enqueued (on_message rid m initial)) post)"
    by (simp add: enqueued_for_await enqueued_on_message failing_delta_def initial_def)
qed (simp_all add: on_message_def encoding_crumb_def for_await_append text_delta_def
    failing_delta_def)

subsection \<open>Counters\<close>

text \<open>
  Claim C8. The four counters never decrease: not in a turn of the loop, not from a prefix
  of the upstream sequence to a longer one, and the statements after the loop leave them
  as they are. \<open>chunkCount\<close> grows by one with every message pulled and ends as the number
  of messages pulled; \<open>textDeltaCount\<close> is at most \<open>chunkCount\<close>. The summary breadcrumb,
  the last telemetry call of a stream whose iterator is exhausted, carries the four final
  values.
\<close>

theorem C8_counters:
  "chunkCount s \<le> chunkCount (on_message rid m s)
   \<and> textDeltaCount s \<le> textDeltaCount (on_message rid m s)
   \<and> toolsUsedCount s \<le> toolsUsedCount (on_message rid m s)
   \<and> parseErrorCount s \<le> parseErrorCount (on_message rid m s)
   \<and> chunkCount (for_await rid xs s) \<le> chunkCount (for_await rid (xs @ ys) s)
   \<and> textDeltaCount (for_await rid xs s) \<le> textDeltaCount (for_await rid (xs @ ys) s)
   \<and> toolsUsedCount (for_await rid xs s) \<le> toolsUsedCount (for_await rid (xs @ ys) s)
   \<and> parseErrorCount (for_await rid xs s) \<le> parseErrorCount (for_await rid (xs @ ys) s)
   \<and> chunkCount (finish rid en s) = chunkCount s
   \<and> textDeltaCount (finish rid en s) = textDeltaCount s
   \<and> toolsUsedCount (finish rid en s) = toolsUsedCount s
   \<and> parseErrorCount (finish rid en s) = parseErrorCount s
   \<and> chunkCount (on_message rid m s) = chunkCount s + 1
   \<and> chunkCount (start rid (ms, en)) = length ms
   \<and> textDeltaCount (start rid (ms, en)) \<le> chunkCount (start rid (ms, en))
   \<and> crumbs (start rid (ms, Exhausted)) =
       crumbs (for_await rid ms initial)
       @ [AddBreadcrumb (done_crumb rid),
          AddBreadcrumb
            (summary_crumb rid
               (chunkCount (start rid (ms, Exhausted)))
               (textDeltaCount (start rid (ms, Exhausted)))
               (toolsUsedCount (start rid (ms, Exhausted)))
               (parseErrorCount (start rid (ms, Exhausted))))]"
proof -
  have init: "chunkCount initial = 0" "textDeltaCount initial = 0"
    by (simp_all add: initial_def)
  have total: "chunkCount (start rid (ms, en)) = length ms"
    by (simp add: start_def finish_counters chunkCount_for_await init)
  have deltas: "textDeltaCount (start rid (ms, en)) \<le> chunkCount (start rid (ms, en))"
    using textDeltaCount_for_await(2) [of rid ms initial]
    by (simp add: start_def finish_counters chunkCount_for_await init)
  have summary: "crumbs (start rid (ms, Exhausted)) =
       crumbs (for_await rid ms initial)
       @ [AddBreadcrumb (done_crumb rid),
          AddBreadcrumb
            (summary_crumb rid
               (chunkCount (start rid (ms, Exhausted)))
               (textDeltaCount (start rid (ms, Exhausted)))
               (toolsUsedCount (start rid (ms, Exhausted)))
               (parseErrorCount (start rid (ms, Exhausted))))]"
    by (simp add: start_def finish_counters crumbs_finish_Exhausted)
  show ?thesis
    using total deltas summary
    by (simp add: for_await_append chunkCount_for_await textDeltaCount_for_await
        toolsUsedCount_for_await parseErrorCount_for_await finish_counters
        chunkCount_on_message textDeltaCount_on_message toolsUsedCount_on_message
        parseErrorCount_on_message)
qed

subsection \<open>A successful result\<close>

text \<open>
  Claim C9. A \<open>result\<close> message of subtype \<open>success\<close> enqueues a \<open>done\<close> frame and does
  not leave the loop or close the stream: the messages after it are handled by the same
  turn of the loop as any other, their frames follow the \<open>done\<close> frame, and the sentinel
  comes only when the iterator is exhausted.
\<close>

theorem C9_success_result_does_not_end_the_loop:
  "on_message rid (Result ''success'') s =
     enqueue (Frame FDone) (s\<lparr>chunkCount := chunkCount s + 1\<rparr>)
   \<and> closed (on_message rid (Result ''success'') s) = closed s
   \<and> for_await rid (pre @ Result ''success'' # post) s =
       for_await rid post
         (enqueue (Frame FDone)
            ((for_await rid pre s)\<lparr>chunkCount := chunkCount (for_await rid pre s) + 1\<rparr>))
   \<and> enqueued (start rid (pre @ Result ''success'' # post, Exhausted)) =
       enqueued (for_await rid pre initial) @ [Frame FDone]
         @ concat (map (\<lambda>m. enqueued (on_message rid m initial)) post) @ [Sentinel]"
proof -
  have step: "on_message rid (Result ''success'') t =
      enqueue (Frame FDone) (t\<lparr>chunkCount := chunkCount t + 1\<rparr>)" for t
    by (simp add: on_message_def)
  have loop: "for_await rid (pre @ Result ''success'' # post) s =
       for_await rid post
         (enqueue (Frame FDone)
            ((for_await rid pre s)\<lparr>chunkCount := chunkCount (for_await rid pre s) + 1\<rparr>))"
    by (simp add: for_await_append step)
  have out: "enqueued (start rid (pre @ Result ''success'' # post, Exhausted)) =
       enqueued (for_await rid pre initial) @ [Frame FDone]
         @ concat (map (\<lambda>m. enqueued (on_message rid m initial)) post) @ [Sentinel]"
    by (simp add: start_def enqueued_finish enqueued_for_await emitted_initial)
  show ?thesis
    using step [of s] loop out by (simp add: closed_on_message)
qed

section \<open>Properties of the request handler\<close>

lemma is_user_message_value: "is_user (message_value m) = Inr (role m = User)"
  by (cases "role m") (simp_all add: is_user_def message_value_def)

lemma render_message_value: "render (message_value m) = Inr (spec_render m)"
  by (cases "role m")
     (simp_all add: render_def is_user_message_value spec_render_def,
      simp_all add: message_value_def)

lemma filter_user_typed:
  "filter_user (map message_value ms) =
     Inr (map message_value (filter (\<lambda>m. role m = User) ms))"
  by (induction ms) (simp_all add: is_user_message_value)

lemma map_render_typed: "map_render (map message_value ms) = Inr (map spec_render ms)"
  by (induction ms) (simp_all add: render_message_value)

lemma conversationContext_typed:
  "conversationContext (map message_value ms) = Inr (spec_transcript ms)"
  by (simp add: conversationContext_def spec_transcript_def map_butlast [symmetric]
      map_render_typed)

lemma fullPrompt_typed:
  "fullPrompt ctx (message_value m) =
     Inr (if ctx \<noteq> []
          then SYSTEM_PROMPT @ ''\<newline>\<newline>Previous conversation:\<newline>'' @ ctx
                 @ ''\<newline>\<newline>User: '' @ content m
          else SYSTEM_PROMPT @ ''\<newline>\<newline>User: '' @ content m)"
  by (simp add: fullPrompt_def message_value_def)

lemma content_length_typed:
  "content_length (message_value m) = Inr (DLengthOf (JStr (content m)))"
  by (simp add: content_length_def message_value_def)

lemma try_body_typed:
  assumes "\<exists>m\<in>set ms. role m = User"
  shows "try_body rid (Inr (request_body ms)) query =
     Inr (stream_response (start rid (query (spec_prompt ms))),
          [AddBreadcrumb (stream_started_crumb rid (length ms)
             (DLengthOf (JStr (last_user_content ms)))),
           AddBreadcrumb (request_completed_crumb rid)],
          [spec_prompt ms])"
proof -
  let ?us = "filter (\<lambda>m. role m = User) ms"
  have ne: "?us \<noteq> []"
    using assms by (simp add: filter_empty_conv)
  then have lst: "last (map message_value ?us) = message_value (last ?us)"
    by (simp add: last_map)
  show ?thesis
    using ne
    by (simp add: try_body_def request_body_def filter_user_typed conversationContext_typed
        lst fullPrompt_typed content_length_typed spec_prompt_def last_user_content_def)
qed

lemma join_empty_iff:
  "\<forall>l\<in>set ls. l \<noteq> [] \<Longrightarrow> join sep ls = [] \<longleftrightarrow> ls = []"
  by (induction sep ls rule: join.induct) simp_all

lemma join_member:
  "x \<in> set ls \<Longrightarrow> \<exists>before after. join sep ls = before @ x @ after"
proof (induction sep ls rule: join.induct)
  case (1 sep)
  then show ?case by simp
next
  case (2 sep y)
  then have "join sep [y] = [] @ x @ []" by simp
  then show ?case by blast
next
  case (3 sep y z zs)
  show ?case
  proof (cases "x = y")
    case True
    then have "join sep (y # z # zs) = [] @ x @ (sep @ join sep (z # zs))" by simp
    then show ?thesis by blast
  next
    case False
    with 3 obtain b a where "join sep (z # zs) = b @ x @ a" by auto
    then have "join sep (y # z # zs) = (y @ sep @ b) @ x @ a" by simp
    then show ?thesis by blast
  qed
qed

lemma get_prop_succeeds:
  "(\<exists>v. get_prop parsed k = Inr v) \<longleftrightarrow> parsed \<noteq> JNull \<and> parsed \<noteq> JUndefined"
  by (cases parsed) simp_all

lemma filter_user_no_user:
  assumes "JNull \<notin> set ms" and "JUndefined \<notin> set ms"
    and "\<forall>m\<in>set ms. get_prop m ''role'' \<noteq> Inr (JStr ''user'')"
  shows "filter_user ms = Inr []"
  using assms
proof (induction ms)
  case Nil
  then show ?case by simp
next
  case (Cons m ms)
  then have "is_user m = Inr False"
    by (cases m) (auto simp: is_user_def split: option.splits)
  with Cons show ?case by simp
qed

subsection \<open>Prompt assembly\<close>

lemma without_last_user_turn_snoc:
  "role m = User \<Longrightarrow> without_last_user_turn (ms @ [m]) = ms"
  by (simp add: without_last_user_turn_def)

lemma claimed_prompt_when_last_is_user:
  assumes "ms \<noteq> []" and "role (last ms) = User"
  shows "queries (POST rid (Inr (request_body ms)) query) = [claimed_prompt ms]"
proof -
  have "without_last_user_turn (butlast ms @ [last ms]) = butlast ms"
    using assms(2) by (rule without_last_user_turn_snoc)
  then have "without_last_user_turn ms = butlast ms"
    using assms(1) by simp
  then have same: "claimed_prompt ms = spec_prompt ms"
    by (simp add: claimed_prompt_def claimed_transcript_def spec_prompt_def spec_transcript_def)
  have "last ms \<in> set ms"
    using assms(1) by simp
  with assms(2) have "\<exists>m\<in>set ms. role m = User"
    by blast
  then show ?thesis
    by (simp add: POST_def try_body_typed same)
qed

text \<open>
  Claim C4 says that for every validated message sequence the transcript of the prompt is
  all messages except the last, the most recent user turn, and that the prompt ends with
  the content of the last user message. The code leaves out the last element of the array
  (its comment: the last message is left out since it is passed as the prompt) and ends the
  prompt with the last message of role user. The two agree when the sequence ends with a
  user message (\<open>claimed_prompt_when_last_is_user\<close>). For a user message \<open>hi\<close> followed by
  an assistant message \<open>hello\<close> they do not: the code's transcript holds the user turn and
  leaves out the assistant's reply, so the prompt is \<open>User: hi\<close> twice, where the claim's
  prompt is \<open>Assistant: hello\<close> and then \<open>User: hi\<close>.
\<close>

theorem C4_assistant_last_prompt:
  "queries (POST ''r''
      (Inr (request_body [\<lparr>role = User, content = ''hi''\<rparr>,
                          \<lparr>role = Assistant, content = ''hello''\<rparr>])) silent) =
     [SYSTEM_PROMPT @ ''\<newline>\<newline>Previous conversation:\<newline>User: hi\<newline>\<newline>User: hi'']
   \<and> claimed_prompt [\<lparr>role = User, content = ''hi''\<rparr>, \<lparr>role = Assistant, content = ''hello''\<rparr>] =
       SYSTEM_PROMPT @ ''\<newline>\<newline>Previous conversation:\<newline>Assistant: hello\<newline>\<newline>User: hi''
   \<and> queries (POST ''r''
      (Inr (request_body [\<lparr>role = User, content = ''hi''\<rparr>,
                          \<lparr>role = Assistant, content = ''hello''\<rparr>])) silent) \<noteq>
     [claimed_prompt [\<lparr>role = User, content = ''hi''\<rparr>, \<lparr>role = Assistant, content = ''hello''\<rparr>]]"
proof -
  let ?ms = "[\<lparr>role = User, content = ''hi''\<rparr>, \<lparr>role = Assistant, content = ''hello''\<rparr>]"
  have "\<exists>m\<in>set ?ms. role m = User"
    by simp
  then have "queries (POST ''r'' (Inr (request_body ?ms)) silent) = [spec_prompt ?ms]"
    by (simp add: POST_def try_body_typed)
  then have code: "queries (POST ''r'' (Inr (request_body ?ms)) silent) =
     [SYSTEM_PROMPT @ ''\<newline>\<newline>Previous conversation:\<newline>User: hi\<newline>\<newline>User: hi'']"
    by (simp add: spec_prompt_def spec_transcript_def spec_render_def last_user_content_def)
  have claim: "claimed_prompt ?ms =
       SYSTEM_PROMPT @ ''\<newline>\<newline>Previous conversation:\<newline>Assistant: hello\<newline>\<newline>User: hi''"
    by (simp add: claimed_prompt_def claimed_transcript_def without_last_user_turn_def
        spec_render_def last_user_content_def)
  show ?thesis
    using code claim by simp
qed

text \<open>
  Claim C10. When the last element of a validated sequence has role assistant, the content
  of the most recent user message stands in the prompt twice: inside the transcript, which
  leaves out only the last element of the array, and again after the closing \<open>User:\<close>.
\<close>

theorem C10_last_user_content_twice:
  assumes "ms \<noteq> []" and "role (last ms) = Assistant" and "\<exists>m\<in>set ms. role m = User"
  shows "\<exists>before after.
      spec_transcript ms = before @ (''User: '' @ last_user_content ms) @ after
    \<and> queries (POST rid (Inr (request_body ms)) query) =
        [SYSTEM_PROMPT @ ''\<newline>\<newline>Previous conversation:\<newline>''
           @ (before @ (''User: '' @ last_user_content ms) @ after)
           @ ''\<newline>\<newline>User: '' @ last_user_content ms]"
proof -
  let ?us = "filter (\<lambda>m. role m = User) ms"
  have ne: "?us \<noteq> []"
    using assms(3) by (simp add: filter_empty_conv)
  then have "last ?us \<in> set ?us"
    by (rule last_in_set)
  then have u: "last ?us \<in> set ms" "role (last ?us) = User"
    by simp_all
  from u(2) assms(2) have "last ?us \<noteq> last ms"
    by auto
  moreover have "set ms = insert (last ms) (set (butlast ms))"
    using assms(1) by (metis append_butlast_last_id list.simps(15) rotate1.simps(2) set_rotate1)
  ultimately have "last ?us \<in> set (butlast ms)"
    using u(1) by auto
  then have "spec_render (last ?us) \<in> set (map spec_render (butlast ms))"
    by simp
  then obtain before after where
    tr: "spec_transcript ms = before @ spec_render (last ?us) @ after"
    unfolding spec_transcript_def using join_member by blast
  have line: "spec_render (last ?us) = ''User: '' @ last_user_content ms"
    using u(2) by (simp add: spec_render_def last_user_content_def)
  have nonempty: "spec_transcript ms \<noteq> []"
    using tr line by simp
  have "queries (POST rid (Inr (request_body ms)) query) = [spec_prompt ms]"
    by (simp add: POST_def try_body_typed [OF assms(3)])
  then have "queries (POST rid (Inr (request_body ms)) query) =
        [SYSTEM_PROMPT @ ''\<newline>\<newline>Previous conversation:\<newline>''
           @ (before @ (''User: '' @ last_user_content ms) @ after)
           @ ''\<newline>\<newline>User: '' @ last_user_content ms]"
    using nonempty tr line by (simp add: spec_prompt_def)
  with tr line show ?thesis
    by metis
qed

text \<open>C10 on a user message followed by an assistant message.\<close>

theorem C10_last_user_content_twice_witness:
  "\<exists>before after.
      spec_transcript [\<lparr>role = User, content = ''hi''\<rparr>, \<lparr>role = Assistant, content = ''hello''\<rparr>] =
        before @ ''User: hi'' @ after
    \<and> queries (POST ''r''
        (Inr (request_body [\<lparr>role = User, content = ''hi''\<rparr>,
                            \<lparr>role = Assistant, content = ''hello''\<rparr>])) silent) =
        [SYSTEM_PROMPT @ ''\<newline>\<newline>Previous conversation:\<newline>''
           @ (before @ ''User: hi'' @ after) @ ''\<newline>\<newline>User: hi'']"
  using C10_last_user_content_twice
      [of "[\<lparr>role = User, content = ''hi''\<rparr>, \<lparr>role = Assistant, content = ''hello''\<rparr>]"
          "''r''" silent]
  by (simp add: last_user_content_def)

subsection \<open>Validation\<close>

text \<open>
  Claim C5 says that every request whose parsed body has no array-typed \<open>messages\<close>
  field is answered with status 400. A body that is the JSON value \<open>null\<close> has no such
  field, but reading \<open>messages\<close> from it throws before the check, and the handler's
  \<^verbatim>\<open>catch\<close> answers with status 500.
\<close>

theorem C5_counterexample:
  "response (POST ''r'' (Inr JNull) silent) =
     error_response 500 ''Failed to process chat request. Check server logs for details.''
   \<and> status (response (POST ''r'' (Inr JNull) silent)) = 500"
  by (simp add: POST_def try_body_def error_response_def)

text \<open>
  Claim C5, amended. For every request whose parsed body is not \<open>null\<close> (so that
  \<open>messages\<close> can be read from it, see \<open>get_prop_succeeds\<close>) and has no array-typed
  \<open>messages\<close> field, the response is status 400 with the body
  \<open>{"error":"Messages array is required"}\<close>, and the agent is not called.
\<close>

theorem C5_messages_array_required:
  assumes "get_prop parsed ''messages'' = Inr messages" and "\<not> isArray messages"
  shows "response (POST rid (Inr parsed) query) =
      error_response 400 ''Messages array is required''
    \<and> status (response (POST rid (Inr parsed) query)) = 400
    \<and> body (response (POST rid (Inr parsed) query)) =
        JsonBody ''{\"error\":\"Messages array is required\"}''
    \<and> queries (POST rid (Inr parsed) query) = []"
  using assms
  by (simp add: POST_def try_body_def error_response_def json_string_def json_escape_def)

text \<open>C5 on an empty object, on \<open>messages\<close> that is a string, and on a body that is a number.\<close>

theorem C5_messages_array_required_witness:
  "status (response (POST ''r'' (Inr (JObj [])) silent)) = 400
   \<and> body (response (POST ''r'' (Inr (JObj [])) silent)) =
       JsonBody ''{\"error\":\"Messages array is required\"}''
   \<and> queries (POST ''r'' (Inr (JObj [])) silent) = []
   \<and> status (response (POST ''r'' (Inr (JObj [(''messages'', JStr ''hi'')])) silent)) = 400
   \<and> status (response (POST ''r'' (Inr (JNum ''7'')) silent)) = 400"
  using C5_messages_array_required [of "JObj []" JUndefined "''r''" silent]
    C5_messages_array_required [of "JObj [(''messages'', JStr ''hi'')]" "JStr ''hi''" "''r''" silent]
    C5_messages_array_required [of "JNum ''7''" JUndefined "''r''" silent]
  by (simp add: error_response_def json_string_def json_escape_def)

text \<open>
  Claim C6 says that every request whose \<open>messages\<close> array has no entry of role user is
  answered with status 400. An array with a \<open>null\<close> entry has no such entry, but reading
  the role of \<open>null\<close> throws inside the filter, and the handler's \<^verbatim>\<open>catch\<close> answers with
  status 500.
\<close>

theorem C6_counterexample:
  "response (POST ''r'' (Inr (JObj [(''messages'', JArr [JNull])])) silent) =
     error_response 500 ''Failed to process chat request. Check server logs for details.''
   \<and> status (response (POST ''r'' (Inr (JObj [(''messages'', JArr [JNull])])) silent)) = 500"
  by (simp add: POST_def try_body_def error_response_def is_user_def)

text \<open>
  Claim C6, amended. For every request whose \<open>messages\<close> array has no \<open>null\<close> entry and no
  entry of role user (the empty array among them), the response is status 400 with the
  body \<open>{"error":"No user message found"}\<close>, and the agent is not called.
\<close>

theorem C6_no_user_message:
  assumes "get_prop parsed ''messages'' = Inr (JArr ms)"
    and "JNull \<notin> set ms" and "JUndefined \<notin> set ms"
    and "\<forall>m\<in>set ms. get_prop m ''role'' \<noteq> Inr (JStr ''user'')"
  shows "response (POST rid (Inr parsed) query) = error_response 400 ''No user message found''
    \<and> status (response (POST rid (Inr parsed) query)) = 400
    \<and> body (response (POST rid (Inr parsed) query)) =
        JsonBody ''{\"error\":\"No user message found\"}''
    \<and> queries (POST rid (Inr parsed) query) = []"
  using assms(1) filter_user_no_user [OF assms(2-4)]
  by (simp add: POST_def try_body_def error_response_def json_string_def json_escape_def)

text \<open>C6 on the empty array and on an array with one assistant message.\<close>

theorem C6_no_user_message_witness:
  "status (response (POST ''r'' (Inr (JObj [(''messages'', JArr [])])) silent)) = 400
   \<and> body (response (POST ''r'' (Inr (JObj [(''messages'', JArr [])])) silent)) =
       JsonBody ''{\"error\":\"No user message found\"}''
   \<and> queries (POST ''r'' (Inr (JObj [(''messages'', JArr [])])) silent) = []
   \<and> status (response (POST ''r''
        (Inr (request_body [\<lparr>role = Assistant, content = ''hello''\<rparr>])) silent)) = 400
   \<and> queries (POST ''r''
        (Inr (request_body [\<lparr>role = Assistant, content = ''hello''\<rparr>])) silent) = []"
  using C6_no_user_message [of "JObj [(''messages'', JArr [])]" "[]" "''r''" silent]
    C6_no_user_message
      [of "request_body [\<lparr>role = Assistant, content = ''hello''\<rparr>]"
          "[message_value \<lparr>role = Assistant, content = ''hello''\<rparr>]" "''r''" silent]
  by (simp add: request_body_def message_value_def error_response_def json_string_def
      json_escape_def)

end
